theory Spec2Isabelle
  imports Main "HOL-Library.Sublist"
begin

section \<open>The process: what poetry\_scripts.py reads and writes\<close>

text \<open>
  The script has no data of its own. Everything it touches belongs to the running
  process: \<^verbatim>\<open>sys.argv\<close>, \<^verbatim>\<open>os.environ\<close>, standard output, and the child
  processes it starts with \<^verbatim>\<open>subprocess.run\<close>. The process is a record, and
  every function of the script takes it and returns it updated.

  A child process is recorded by what it is started with: its argument vector and the
  environment it sees.
\<close>

type_synonym environ = "string \<rightharpoonup> string"

record invocation =
  inv_args :: "string list"
  inv_env :: environ

record process =
  sys_argv :: "string list"
  os_environ :: environ
  stdout :: "string list"
  spawned :: "invocation list"

text \<open>
  \<^verbatim>\<open>subprocess.run(args, env=env)\<close>: with \<^verbatim>\<open>env=None\<close> (the default) the child
  inherits the environment of the process, otherwise it sees the mapping passed. The
  call is made without \<^verbatim>\<open>check=True\<close> and its result is dropped, so the child's
  exit status has no effect on the script; the model records the invocation and goes on.
\<close>

definition subprocess_run :: "string list \<Rightarrow> environ option \<Rightarrow> process \<Rightarrow> process" where
  "subprocess_run args env s =
     s\<lparr>spawned := spawned s @
        [\<lparr>inv_args = args,
          inv_env = (case env of None \<Rightarrow> os_environ s | Some e \<Rightarrow> e)\<rparr>]\<rparr>"

text \<open>\<^verbatim>\<open>print(line)\<close>: one more line on standard output.\<close>

definition print :: "string \<Rightarrow> process \<Rightarrow> process" where
  "print line s = s\<lparr>stdout := stdout s @ [line]\<rparr>"

section \<open>The four actions\<close>

definition serve :: "process \<Rightarrow> process" where
  "serve s = subprocess_run [''mkdocs'', ''serve''] None s"

definition build :: "process \<Rightarrow> process" where
  "build s = subprocess_run [''mkdocs'', ''build''] None s"

text \<open>
  \<^verbatim>\<open>env = os.environ.copy(); env["ENABLE_PDF_EXPORT"] = "1"\<close>: the assignment is to
  the copy, a value of its own in the model.
\<close>

definition build_pdf :: "process \<Rightarrow> process" where
  "build_pdf s =
     (let env = os_environ s;
          env = env(''ENABLE_PDF_EXPORT'' \<mapsto> ''1'')
      in subprocess_run [''mkdocs'', ''build''] (Some env) s)"

subsection \<open>deploy\_version\<close>

text \<open>
  The locals of \<^verbatim>\<open>deploy_version\<close>, each a function of
  \<^verbatim>\<open>args = sys.argv[1:]\<close>. Both indexings are guarded by the length test, so
  neither can raise. \<^verbatim>\<open>if message:\<close> is Python's truth test of a string: true
  unless the string is empty.
\<close>

definition deploy_version_args :: "process \<Rightarrow> string list" where
  "deploy_version_args s = drop 1 (sys_argv s)"

definition deploy_version_version :: "string list \<Rightarrow> string" where
  "deploy_version_version args = (if length args > 0 then args ! 0 else ''latest'')"

definition deploy_version_message :: "string list \<Rightarrow> string" where
  "deploy_version_message args =
     (if length args > 1 then args ! 1
      else ''Deploy version '' @ deploy_version_version args)"

definition deploy_version_cmd :: "string list \<Rightarrow> string list" where
  "deploy_version_cmd args =
     (let version = deploy_version_version args;
          message = deploy_version_message args;
          cmd = [''mike'', ''deploy'', ''--push'', ''--update-aliases'', version, ''latest'']
      in if message \<noteq> [] then cmd @ [''-m'', message] else cmd)"

definition deploy_version :: "process \<Rightarrow> process" where
  "deploy_version s =
     (let args = deploy_version_args s;
          version = deploy_version_version args;
          message = deploy_version_message args;
          cmd = deploy_version_cmd args;
          s = print (''Deploying documentation version: '' @ version) s;
          s = print (''Commit message: '' @ message) s
      in subprocess_run cmd None s)"

text \<open>
  The spec's reading of the message flag: appended without the truth test.
  Not code of the script; it is what the script is compared with.
\<close>

definition deploy_version_cmd_unchecked :: "string list \<Rightarrow> string list" where
  "deploy_version_cmd_unchecked args =
     (let version = deploy_version_version args;
          message = deploy_version_message args;
          cmd = [''mike'', ''deploy'', ''--push'', ''--update-aliases'', version, ''latest'']
      in cmd @ [''-m'', message])"

definition deploy_version_unchecked :: "process \<Rightarrow> process" where
  "deploy_version_unchecked s =
     (let args = deploy_version_args s;
          version = deploy_version_version args;
          message = deploy_version_message args;
          cmd = deploy_version_cmd_unchecked args;
          s = print (''Deploying documentation version: '' @ version) s;
          s = print (''Commit message: '' @ message) s
      in subprocess_run cmd None s)"

section \<open>The dispatcher\<close>

text \<open>
  The body under \<^verbatim>\<open>if __name__ == "__main__"\<close>. An action returns;
  \<^verbatim>\<open>sys.exit(1)\<close> ends the process with that status. A script that runs to its
  end exits with status 0.
\<close>

datatype outcome = Returned | SysExit int

fun exit_status :: "outcome \<Rightarrow> int" where
  "exit_status Returned = 0"
| "exit_status (SysExit n) = n"

definition main_command :: "process \<Rightarrow> string" where
  "main_command s = (if length (sys_argv s) > 1 then sys_argv s ! 1 else ''serve'')"

definition main :: "process \<Rightarrow> outcome \<times> process" where
  "main s =
     (let command = main_command s
      in if command = ''serve'' then (Returned, serve s)
         else if command = ''build'' then (Returned, build s)
         else if command = ''build-pdf'' then (Returned, build_pdf s)
         else if command = ''deploy-version'' then (Returned, deploy_version s)
         else
           (let s = print (''Unknown command: '' @ command) s;
                s = print ''Available commands: serve, build, build-pdf, deploy-version'' s
            in (SysExit 1, s)))"

text \<open>The four names the dispatcher compares the command with, in its order.\<close>

definition known_commands :: "string list" where
  "known_commands = [''serve'', ''build'', ''build-pdf'', ''deploy-version'']"

section \<open>Unfolding the script\<close>

lemmas action_defs = subprocess_run_def print_def serve_def build_def build_pdf_def

lemmas deploy_defs = deploy_version_args_def deploy_version_version_def
  deploy_version_message_def deploy_version_cmd_def

lemma deploy_version_message_empty_iff:
  "deploy_version_message args = [] \<longleftrightarrow> (length args > 1 \<and> args ! 1 = [])"
  by (simp add: deploy_version_message_def)

lemma deploy_version_version_take2:
  assumes "take 2 args = take 2 args'"
  shows "deploy_version_version args = deploy_version_version args'"
proof -
  from assms have "take 1 (take 2 args) = take 1 (take 2 args')"
    by simp
  then have "take 1 args = take 1 args'"
    by simp
  then show ?thesis
    by (cases args; cases args') (simp_all add: deploy_version_version_def)
qed

lemma deploy_version_message_take2:
  assumes "take 2 args = take 2 args'"
  shows "deploy_version_message args = deploy_version_message args'"
proof (cases args)
  case Nil
  with assms show ?thesis
    by (cases args') (simp_all add: deploy_version_message_def deploy_version_version_def)
next
  case outer: (Cons v rest)
  show ?thesis
  proof (cases rest)
    case Nil
    with outer assms show ?thesis
      by (cases args'; cases "tl args'")
        (simp_all add: deploy_version_message_def deploy_version_version_def)
  next
    case (Cons m more)
    with outer assms show ?thesis
      by (cases args'; cases "tl args'")
        (simp_all add: deploy_version_message_def deploy_version_version_def)
  qed
qed

lemma main_known:
  "main_command s \<in> set known_commands \<Longrightarrow> fst (main s) = Returned"
  by (auto simp: main_def known_commands_def Let_def)

lemma main_unknown:
  assumes "main_command s \<notin> set known_commands"
  shows "main s =
    (SysExit 1,
     s\<lparr>stdout := stdout s @
        [''Unknown command: '' @ main_command s,
         ''Available commands: serve, build, build-pdf, deploy-version'']\<rparr>)"
  using assms by (simp add: main_def known_commands_def Let_def print_def)

lemma available_names:
  "sublist ''serve'' ''Available commands: serve, build, build-pdf, deploy-version''"
  "sublist ''build'' ''Available commands: serve, build, build-pdf, deploy-version''"
  "sublist ''build-pdf'' ''Available commands: serve, build, build-pdf, deploy-version''"
  "sublist ''deploy-version'' ''Available commands: serve, build, build-pdf, deploy-version''"
  by code_simp+

section \<open>The claims\<close>

text \<open>
  C1. Through the dispatcher, the positional arguments of the deploy-version action
  should leave out the command name. They do not: the dispatcher reads
  \<^verbatim>\<open>sys.argv[1]\<close> as the command and \<^verbatim>\<open>deploy_version\<close> then reads the same
  \<^verbatim>\<open>sys.argv[1:]\<close> again. Run as
  \<^verbatim>\<open>poetry_scripts.py deploy-version 1.0.0 "Initial release"\<close>, the script resolves
  the version to the command name and the message to the version, and
  \<^verbatim>\<open>poetry_scripts.py deploy-version\<close> alone resolves the version to the command
  name, not to the default.
\<close>

theorem dispatcher_deploy_version_reads_command_name:
  "main \<lparr>sys_argv = [''poetry_scripts.py'', ''deploy-version'', ''1.0.0'', ''Initial release''],
         os_environ = Map.empty, stdout = [], spawned = []\<rparr>
   = (Returned,
      \<lparr>sys_argv = [''poetry_scripts.py'', ''deploy-version'', ''1.0.0'', ''Initial release''],
       os_environ = Map.empty,
       stdout = [''Deploying documentation version: deploy-version'',
                 ''Commit message: 1.0.0''],
       spawned = [\<lparr>inv_args = [''mike'', ''deploy'', ''--push'', ''--update-aliases'',
                               ''deploy-version'', ''latest'', ''-m'', ''1.0.0''],
                   inv_env = Map.empty\<rparr>]\<rparr>) \<and>
   deploy_version_version
     (deploy_version_args
        \<lparr>sys_argv = [''poetry_scripts.py'', ''deploy-version''],
         os_environ = Map.empty, stdout = [], spawned = []\<rparr>) = ''deploy-version''"
  by (simp add: main_def main_command_def deploy_version_def deploy_defs action_defs Let_def)

text \<open>
  C2, as amended. The truth test that guards the message flag is false exactly when a
  second positional argument is given and is the empty string. Then the message is
  empty and the command vector is the six-element base vector, with no message flag,
  where the variant without the test would end with \<^verbatim>\<open>-m\<close> and the empty
  string. For every other argument list the message is not empty, the command vector
  ends with \<^verbatim>\<open>-m\<close> and the message, and dropping the test changes nothing the
  function does. For every argument list, dropping the test leaves the printed output
  as it is.
\<close>

theorem message_flag_check_false_only_on_empty_message:
  "(deploy_version_message (deploy_version_args s) = [] \<longleftrightarrow>
      length (deploy_version_args s) > 1 \<and> deploy_version_args s ! 1 = []) \<and>
   stdout (deploy_version_unchecked s) = stdout (deploy_version s) \<and>
   (length (deploy_version_args s) > 1 \<and> deploy_version_args s ! 1 = [] \<longrightarrow>
      deploy_version_cmd (deploy_version_args s) =
        [''mike'', ''deploy'', ''--push'', ''--update-aliases'',
         deploy_version_version (deploy_version_args s), ''latest''] \<and>
      deploy_version_cmd_unchecked (deploy_version_args s) =
        [''mike'', ''deploy'', ''--push'', ''--update-aliases'',
         deploy_version_version (deploy_version_args s), ''latest'', ''-m'', ''''] \<and>
      deploy_version_cmd_unchecked (deploy_version_args s) \<noteq>
        deploy_version_cmd (deploy_version_args s) \<and>
      spawned (deploy_version s) =
        spawned s @
          [\<lparr>inv_args = [''mike'', ''deploy'', ''--push'', ''--update-aliases'',
                        deploy_version_version (deploy_version_args s), ''latest''],
            inv_env = os_environ s\<rparr>] \<and>
      spawned (deploy_version_unchecked s) \<noteq> spawned (deploy_version s)) \<and>
   (\<not> (length (deploy_version_args s) > 1 \<and> deploy_version_args s ! 1 = []) \<longrightarrow>
      deploy_version_cmd (deploy_version_args s) =
        [''mike'', ''deploy'', ''--push'', ''--update-aliases'',
         deploy_version_version (deploy_version_args s), ''latest'',
         ''-m'', deploy_version_message (deploy_version_args s)] \<and>
      deploy_version_cmd_unchecked (deploy_version_args s) =
        deploy_version_cmd (deploy_version_args s) \<and>
      deploy_version_unchecked s = deploy_version s)"
proof -
  let ?args = "deploy_version_args s"
  let ?empty = "length ?args > 1 \<and> ?args ! 1 = []"
  have guard: "deploy_version_message ?args = [] \<longleftrightarrow> ?empty"
    by (rule deploy_version_message_empty_iff)
  have out: "stdout (deploy_version_unchecked s) = stdout (deploy_version s)"
    by (simp add: deploy_version_unchecked_def deploy_version_def action_defs Let_def)
  have off: "?empty \<longrightarrow>
      deploy_version_cmd ?args =
        [''mike'', ''deploy'', ''--push'', ''--update-aliases'',
         deploy_version_version ?args, ''latest''] \<and>
      deploy_version_cmd_unchecked ?args =
        [''mike'', ''deploy'', ''--push'', ''--update-aliases'',
         deploy_version_version ?args, ''latest'', ''-m'', ''''] \<and>
      deploy_version_cmd_unchecked ?args \<noteq> deploy_version_cmd ?args \<and>
      spawned (deploy_version s) =
        spawned s @
          [\<lparr>inv_args = [''mike'', ''deploy'', ''--push'', ''--update-aliases'',
                        deploy_version_version ?args, ''latest''],
            inv_env = os_environ s\<rparr>] \<and>
      spawned (deploy_version_unchecked s) \<noteq> spawned (deploy_version s)"
    by (simp add: deploy_version_cmd_def deploy_version_cmd_unchecked_def
        deploy_version_message_def deploy_version_unchecked_def deploy_version_def
        action_defs Let_def)
  have on: "\<not> ?empty \<longrightarrow>
      deploy_version_cmd ?args =
        [''mike'', ''deploy'', ''--push'', ''--update-aliases'',
         deploy_version_version ?args, ''latest'',
         ''-m'', deploy_version_message ?args] \<and>
      deploy_version_cmd_unchecked ?args = deploy_version_cmd ?args \<and>
      deploy_version_unchecked s = deploy_version s"
    by (simp add: deploy_version_message_empty_iff deploy_version_cmd_def
        deploy_version_cmd_unchecked_def deploy_version_unchecked_def deploy_version_def
        Let_def)
  from guard out off on show ?thesis
    by (intro conjI)
qed

text \<open>
  The theorem at two inputs: an empty message argument, where the test is false and the
  vector built is the base vector, and an explicit message, where the flag is appended.
\<close>

theorem message_flag_check_witness:
  "deploy_version_args
     \<lparr>sys_argv = [''poetry_scripts.py'', ''1.0.0'', ''''],
      os_environ = Map.empty, stdout = [], spawned = []\<rparr> = [''1.0.0'', ''''] \<and>
   (length [''1.0.0'', ''''] > 1 \<and> [''1.0.0'', ''''] ! 1 = []) \<and>
   deploy_version_message [''1.0.0'', ''''] = '''' \<and>
   deploy_version_cmd [''1.0.0'', ''''] =
     [''mike'', ''deploy'', ''--push'', ''--update-aliases'', ''1.0.0'', ''latest''] \<and>
   deploy_version_cmd_unchecked [''1.0.0'', ''''] =
     [''mike'', ''deploy'', ''--push'', ''--update-aliases'', ''1.0.0'', ''latest'',
      ''-m'', ''''] \<and>
   spawned (deploy_version
     \<lparr>sys_argv = [''poetry_scripts.py'', ''1.0.0'', ''''],
      os_environ = Map.empty, stdout = [], spawned = []\<rparr>) =
     [\<lparr>inv_args = [''mike'', ''deploy'', ''--push'', ''--update-aliases'', ''1.0.0'',
                   ''latest''],
       inv_env = Map.empty\<rparr>] \<and>
   stdout (deploy_version_unchecked
     \<lparr>sys_argv = [''poetry_scripts.py'', ''1.0.0'', ''''],
      os_environ = Map.empty, stdout = [], spawned = []\<rparr>) =
   stdout (deploy_version
     \<lparr>sys_argv = [''poetry_scripts.py'', ''1.0.0'', ''''],
      os_environ = Map.empty, stdout = [], spawned = []\<rparr>) \<and>
   deploy_version_args
     \<lparr>sys_argv = [''poetry_scripts.py'', ''1.0.0'', ''Initial release''],
      os_environ = Map.empty, stdout = [], spawned = []\<rparr> =
     [''1.0.0'', ''Initial release''] \<and>
   \<not> (length [''1.0.0'', ''Initial release''] > 1 \<and>
      [''1.0.0'', ''Initial release''] ! 1 = []) \<and>
   deploy_version_cmd [''1.0.0'', ''Initial release''] =
     [''mike'', ''deploy'', ''--push'', ''--update-aliases'', ''1.0.0'', ''latest'',
      ''-m'', ''Initial release''] \<and>
   deploy_version_cmd_unchecked [''1.0.0'', ''Initial release''] =
     deploy_version_cmd [''1.0.0'', ''Initial release''] \<and>
   deploy_version_unchecked
     \<lparr>sys_argv = [''poetry_scripts.py'', ''1.0.0'', ''Initial release''],
      os_environ = Map.empty, stdout = [], spawned = []\<rparr> =
   deploy_version
     \<lparr>sys_argv = [''poetry_scripts.py'', ''1.0.0'', ''Initial release''],
      os_environ = Map.empty, stdout = [], spawned = []\<rparr>"
proof -
  have empty_args: "deploy_version_args
     \<lparr>sys_argv = [''poetry_scripts.py'', ''1.0.0'', ''''],
      os_environ = Map.empty, stdout = [], spawned = []\<rparr> = [''1.0.0'', '''']"
    by (simp add: deploy_version_args_def)
  have given_args: "deploy_version_args
     \<lparr>sys_argv = [''poetry_scripts.py'', ''1.0.0'', ''Initial release''],
      os_environ = Map.empty, stdout = [], spawned = []\<rparr> =
     [''1.0.0'', ''Initial release'']"
    by (simp add: deploy_version_args_def)
  show ?thesis
    using message_flag_check_false_only_on_empty_message
        [of "\<lparr>sys_argv = [''poetry_scripts.py'', ''1.0.0'', ''''],
              os_environ = Map.empty, stdout = [], spawned = []\<rparr>"]
      message_flag_check_false_only_on_empty_message
        [of "\<lparr>sys_argv = [''poetry_scripts.py'', ''1.0.0'', ''Initial release''],
              os_environ = Map.empty, stdout = [], spawned = []\<rparr>"]
    by (simp add: empty_args given_args deploy_version_version_def
        deploy_version_message_def)
qed

text \<open>
  C2, as stated, fails when the message argument is the empty string: the message is
  empty, the test is false, the command vector has no message flag, and the variant
  without the test builds a different vector.
\<close>

theorem message_flag_check_counterexample:
  "deploy_version_message [''1.0.0'', ''''] = '''' \<and>
   deploy_version_cmd [''1.0.0'', ''''] =
     [''mike'', ''deploy'', ''--push'', ''--update-aliases'', ''1.0.0'', ''latest''] \<and>
   deploy_version_cmd_unchecked [''1.0.0'', ''''] \<noteq> deploy_version_cmd [''1.0.0'', '''']"
  by (simp add: deploy_defs deploy_version_cmd_unchecked_def Let_def)

text \<open>
  C3. \<^verbatim>\<open>build_pdf\<close> starts one child, \<^verbatim>\<open>mkdocs build\<close>, whose environment is
  the environment of the process with \<^verbatim>\<open>ENABLE_PDF_EXPORT\<close> bound to \<^verbatim>\<open>"1"\<close>.
  The environment of the process itself is what it was before the call, so it holds the
  key afterwards only if it held it before; arguments and output are untouched too.
\<close>

theorem build_pdf_environment_isolated:
  "spawned (build_pdf s) =
     spawned s @
       [\<lparr>inv_args = [''mkdocs'', ''build''],
         inv_env = (os_environ s)(''ENABLE_PDF_EXPORT'' \<mapsto> ''1'')\<rparr>] \<and>
   inv_env (last (spawned (build_pdf s))) ''ENABLE_PDF_EXPORT'' = Some ''1'' \<and>
   os_environ (build_pdf s) = os_environ s \<and>
   (''ENABLE_PDF_EXPORT'' \<in> dom (os_environ (build_pdf s)) \<longleftrightarrow>
      ''ENABLE_PDF_EXPORT'' \<in> dom (os_environ s)) \<and>
   sys_argv (build_pdf s) = sys_argv s \<and>
   stdout (build_pdf s) = stdout s"
  by (simp add: build_pdf_def subprocess_run_def Let_def)

text \<open>
  C4. With a first argument \<open>c\<close> that is none of the four command names (compared
  as strings, so case matters), the dispatcher starts no child, prints
  \<^verbatim>\<open>Unknown command: \<close> followed by \<open>c\<close> and then the line of the four names,
  and exits with status 1. For any process, the exit is taken exactly when the command
  is none of the four names; a recognised command returns, which is exit status 0.
\<close>

theorem unknown_command_exits_1:
  "(c \<notin> set known_commands \<longrightarrow>
      main (s\<lparr>sys_argv := p # c # rest\<rparr>) =
        (SysExit 1,
         s\<lparr>sys_argv := p # c # rest,
           stdout := stdout s @
             [''Unknown command: '' @ c,
              ''Available commands: serve, build, build-pdf, deploy-version'']\<rparr>) \<and>
      exit_status (fst (main (s\<lparr>sys_argv := p # c # rest\<rparr>))) = 1 \<and>
      sublist c (''Unknown command: '' @ c)) \<and>
   sublist ''serve'' ''Available commands: serve, build, build-pdf, deploy-version'' \<and>
   sublist ''build'' ''Available commands: serve, build, build-pdf, deploy-version'' \<and>
   sublist ''build-pdf'' ''Available commands: serve, build, build-pdf, deploy-version'' \<and>
   sublist ''deploy-version''
     ''Available commands: serve, build, build-pdf, deploy-version'' \<and>
   (fst (main t) = SysExit 1 \<longleftrightarrow> main_command t \<notin> set known_commands) \<and>
   (fst (main t) = Returned \<longleftrightarrow> main_command t \<in> set known_commands) \<and>
   (main_command t \<in> set known_commands \<longrightarrow> exit_status (fst (main t)) = 0)"
proof -
  have cmd: "main_command (s\<lparr>sys_argv := p # c # rest\<rparr>) = c"
    by (simp add: main_command_def)
  have unknown: "main (s\<lparr>sys_argv := p # c # rest\<rparr>) =
        (SysExit 1,
         s\<lparr>sys_argv := p # c # rest,
           stdout := stdout s @
             [''Unknown command: '' @ c,
              ''Available commands: serve, build, build-pdf, deploy-version'']\<rparr>)"
    if "c \<notin> set known_commands"
    using that main_unknown [of "s\<lparr>sys_argv := p # c # rest\<rparr>"] by (simp add: cmd)
  have exits: "fst (main t) = SysExit 1" if "main_command t \<notin> set known_commands"
    using that by (simp add: main_unknown)
  have returns: "fst (main t) = Returned" if "main_command t \<in> set known_commands"
    using that by (rule main_known)
  have first: "c \<notin> set known_commands \<longrightarrow>
      main (s\<lparr>sys_argv := p # c # rest\<rparr>) =
        (SysExit 1,
         s\<lparr>sys_argv := p # c # rest,
           stdout := stdout s @
             [''Unknown command: '' @ c,
              ''Available commands: serve, build, build-pdf, deploy-version'']\<rparr>) \<and>
      exit_status (fst (main (s\<lparr>sys_argv := p # c # rest\<rparr>))) = 1 \<and>
      sublist c (''Unknown command: '' @ c)"
  proof
    assume "c \<notin> set known_commands"
    then have eq: "main (s\<lparr>sys_argv := p # c # rest\<rparr>) =
        (SysExit 1,
         s\<lparr>sys_argv := p # c # rest,
           stdout := stdout s @
             [''Unknown command: '' @ c,
              ''Available commands: serve, build, build-pdf, deploy-version'']\<rparr>)"
      by (rule unknown)
    have status: "exit_status (fst (main (s\<lparr>sys_argv := p # c # rest\<rparr>))) = 1"
      by (simp only: eq fst_conv exit_status.simps)
    have "sublist c (''Unknown command: '' @ c)"
      by (rule sublist_append_leftI)
    with eq status show "main (s\<lparr>sys_argv := p # c # rest\<rparr>) =
        (SysExit 1,
         s\<lparr>sys_argv := p # c # rest,
           stdout := stdout s @
             [''Unknown command: '' @ c,
              ''Available commands: serve, build, build-pdf, deploy-version'']\<rparr>) \<and>
      exit_status (fst (main (s\<lparr>sys_argv := p # c # rest\<rparr>))) = 1 \<and>
      sublist c (''Unknown command: '' @ c)"
      by (intro conjI)
  qed
  have split: "fst (main t) = SysExit 1 \<longleftrightarrow> main_command t \<notin> set known_commands"
    using exits returns by (cases "main_command t \<in> set known_commands") simp_all
  have split': "fst (main t) = Returned \<longleftrightarrow> main_command t \<in> set known_commands"
    using exits returns by (cases "main_command t \<in> set known_commands") simp_all
  have ok: "main_command t \<in> set known_commands \<longrightarrow> exit_status (fst (main t)) = 0"
    using returns by simp
  from first available_names split split' ok show ?thesis
    by (intro conjI)
qed

theorem unknown_command_witness:
  "''Serve'' \<notin> set known_commands \<and>
   main \<lparr>sys_argv = [''poetry_scripts.py'', ''Serve''],
         os_environ = Map.empty, stdout = [], spawned = []\<rparr> =
     (SysExit 1,
      \<lparr>sys_argv = [''poetry_scripts.py'', ''Serve''],
       os_environ = Map.empty,
       stdout = [''Unknown command: Serve'',
                 ''Available commands: serve, build, build-pdf, deploy-version''],
       spawned = []\<rparr>) \<and>
   main_command \<lparr>sys_argv = [''poetry_scripts.py'', ''build-pdf''],
         os_environ = Map.empty, stdout = [], spawned = []\<rparr> \<in> set known_commands \<and>
   exit_status (fst (main \<lparr>sys_argv = [''poetry_scripts.py'', ''build-pdf''],
         os_environ = Map.empty, stdout = [], spawned = []\<rparr>)) = 0"
proof -
  have unknown: "''Serve'' \<notin> set known_commands"
    by (simp add: known_commands_def)
  have known: "main_command \<lparr>sys_argv = [''poetry_scripts.py'', ''build-pdf''],
         os_environ = Map.empty, stdout = [], spawned = []\<rparr> \<in> set known_commands"
    by (simp add: main_command_def known_commands_def)
  show ?thesis
    using unknown known
      unknown_command_exits_1
        [where c = "''Serve''"
           and s = "\<lparr>sys_argv = [], os_environ = Map.empty, stdout = [], spawned = []\<rparr>"
           and p = "''poetry_scripts.py''" and rest = "[]"
           and t = "\<lparr>sys_argv = [''poetry_scripts.py'', ''build-pdf''],
              os_environ = Map.empty, stdout = [], spawned = []\<rparr>"]
    by simp
qed

text \<open>
  C5. With \<^verbatim>\<open>1.0.0\<close> and \<^verbatim>\<open>Initial release\<close> as its two positional
  arguments, \<^verbatim>\<open>deploy_version\<close> builds the vector
  \<^verbatim>\<open>mike deploy --push --update-aliases 1.0.0 latest -m "Initial release"\<close>, and that
  is the one child it starts, in the environment of the process.
\<close>

theorem deploy_version_explicit_args:
  "deploy_version_args (s\<lparr>sys_argv := [p, ''1.0.0'', ''Initial release'']\<rparr>) =
     [''1.0.0'', ''Initial release''] \<and>
   deploy_version_cmd [''1.0.0'', ''Initial release''] =
     [''mike'', ''deploy'', ''--push'', ''--update-aliases'', ''1.0.0'', ''latest'',
      ''-m'', ''Initial release''] \<and>
   spawned (deploy_version (s\<lparr>sys_argv := [p, ''1.0.0'', ''Initial release'']\<rparr>)) =
     spawned s @
       [\<lparr>inv_args = [''mike'', ''deploy'', ''--push'', ''--update-aliases'', ''1.0.0'',
                     ''latest'', ''-m'', ''Initial release''],
         inv_env = os_environ s\<rparr>]"
  by (simp add: deploy_version_def deploy_defs action_defs Let_def)

text \<open>
  C6. With no positional argument (\<^verbatim>\<open>sys.argv\<close> holds the program name only, or
  nothing at all), the version is \<^verbatim>\<open>latest\<close> and the message is
  \<^verbatim>\<open>Deploy version latest\<close>; both are what the function prints.
\<close>

theorem deploy_version_no_args:
  "deploy_version_args (s\<lparr>sys_argv := [p]\<rparr>) = [] \<and>
   deploy_version_args (s\<lparr>sys_argv := []\<rparr>) = [] \<and>
   deploy_version_version [] = ''latest'' \<and>
   deploy_version_message [] = ''Deploy version latest'' \<and>
   stdout (deploy_version (s\<lparr>sys_argv := [p]\<rparr>)) =
     stdout s @
       [''Deploying documentation version: latest'',
        ''Commit message: Deploy version latest'']"
  by (simp add: deploy_version_def deploy_defs action_defs Let_def)

text \<open>
  C7. With a version \<open>v\<close> as the only positional argument, whatever string it is,
  the version is \<open>v\<close> and the message is \<^verbatim>\<open>Deploy version \<close> followed by
  \<open>v\<close>; the message is what the function prints and passes after \<^verbatim>\<open>-m\<close>.
\<close>

theorem deploy_version_default_message:
  "deploy_version_args (s\<lparr>sys_argv := [p, v]\<rparr>) = [v] \<and>
   deploy_version_version [v] = v \<and>
   deploy_version_message [v] = ''Deploy version '' @ v \<and>
   stdout (deploy_version (s\<lparr>sys_argv := [p, v]\<rparr>)) =
     stdout s @
       [''Deploying documentation version: '' @ v,
        ''Commit message: '' @ ''Deploy version '' @ v] \<and>
   map inv_args (spawned (deploy_version (s\<lparr>sys_argv := [p, v]\<rparr>))) =
     map inv_args (spawned s) @
       [[''mike'', ''deploy'', ''--push'', ''--update-aliases'', v, ''latest'',
         ''-m'', ''Deploy version '' @ v]]"
  by (simp add: deploy_version_def deploy_defs action_defs Let_def)

text \<open>
  C8. Run with no command-line argument, the dispatcher takes the command to be
  \<^verbatim>\<open>serve\<close> and does what it does for an explicit \<^verbatim>\<open>serve\<close>: it calls
  \<^verbatim>\<open>serve\<close> and returns, and the one child started is \<^verbatim>\<open>mkdocs serve\<close> in
  the environment of the process, with nothing printed.
\<close>

theorem no_argument_is_serve:
  "main_command (s\<lparr>sys_argv := [p]\<rparr>) = ''serve'' \<and>
   main_command (s\<lparr>sys_argv := [p]\<rparr>) = main_command (s\<lparr>sys_argv := p # ''serve'' # rest\<rparr>) \<and>
   main (s\<lparr>sys_argv := [p]\<rparr>) = (Returned, serve (s\<lparr>sys_argv := [p]\<rparr>)) \<and>
   main (s\<lparr>sys_argv := p # ''serve'' # rest\<rparr>) =
     (Returned, serve (s\<lparr>sys_argv := p # ''serve'' # rest\<rparr>)) \<and>
   spawned (snd (main (s\<lparr>sys_argv := [p]\<rparr>))) =
     spawned s @ [\<lparr>inv_args = [''mkdocs'', ''serve''], inv_env = os_environ s\<rparr>] \<and>
   spawned (snd (main (s\<lparr>sys_argv := [p]\<rparr>))) =
     spawned (snd (main (s\<lparr>sys_argv := p # ''serve'' # rest\<rparr>))) \<and>
   stdout (snd (main (s\<lparr>sys_argv := [p]\<rparr>))) =
     stdout (snd (main (s\<lparr>sys_argv := p # ''serve'' # rest\<rparr>))) \<and>
   os_environ (snd (main (s\<lparr>sys_argv := [p]\<rparr>))) =
     os_environ (snd (main (s\<lparr>sys_argv := p # ''serve'' # rest\<rparr>)))"
  by (simp add: main_def main_command_def serve_def subprocess_run_def Let_def)

text \<open>
  C9. The defaults stand in for an absent argument, not for an empty one. An empty first
  argument is the version, and the default message built from it is
  \<^verbatim>\<open>Deploy version \<close> with its trailing space. An empty second argument is the
  message, and then no message flag is appended: the command vector is the six-element
  base vector, while the empty message is still printed.
\<close>

theorem deploy_version_defaults_on_absence_only:
  "deploy_version_version ('''' # rest) = '''' \<and>
   deploy_version_message [''''] = ''Deploy version '' \<and>
   deploy_version_message (v # '''' # rest) = '''' \<and>
   deploy_version_cmd (v # '''' # rest) =
     [''mike'', ''deploy'', ''--push'', ''--update-aliases'', v, ''latest''] \<and>
   spawned (deploy_version (s\<lparr>sys_argv := p # v # '''' # rest\<rparr>)) =
     spawned s @
       [\<lparr>inv_args = [''mike'', ''deploy'', ''--push'', ''--update-aliases'', v, ''latest''],
         inv_env = os_environ s\<rparr>] \<and>
   stdout (deploy_version (s\<lparr>sys_argv := p # v # '''' # rest\<rparr>)) =
     stdout s @ [''Deploying documentation version: '' @ v, ''Commit message: '']"
  by (simp add: deploy_version_def deploy_defs action_defs Let_def)

text \<open>
  C10. \<^verbatim>\<open>deploy_version\<close> reads its first two positional arguments and nothing
  else of \<^verbatim>\<open>sys.argv\<close>: two argument lists with the same first two elements (or
  the same one, or none) give the same version, message and command vector, and run in
  the same process they start the same child and print the same lines.
\<close>

theorem deploy_version_ignores_further_args:
  assumes "take 2 (drop 1 a) = take 2 (drop 1 b)"
  shows "deploy_version_version (drop 1 a) = deploy_version_version (drop 1 b) \<and>
    deploy_version_message (drop 1 a) = deploy_version_message (drop 1 b) \<and>
    deploy_version_cmd (drop 1 a) = deploy_version_cmd (drop 1 b) \<and>
    spawned (deploy_version (s\<lparr>sys_argv := a\<rparr>)) = spawned (deploy_version (s\<lparr>sys_argv := b\<rparr>)) \<and>
    stdout (deploy_version (s\<lparr>sys_argv := a\<rparr>)) = stdout (deploy_version (s\<lparr>sys_argv := b\<rparr>))"
proof -
  have v: "deploy_version_version (drop 1 a) = deploy_version_version (drop 1 b)"
    using assms by (rule deploy_version_version_take2)
  have m: "deploy_version_message (drop 1 a) = deploy_version_message (drop 1 b)"
    using assms by (rule deploy_version_message_take2)
  have c: "deploy_version_cmd (drop 1 a) = deploy_version_cmd (drop 1 b)"
    by (simp only: deploy_version_cmd_def v m)
  have sp: "spawned (deploy_version (s\<lparr>sys_argv := a\<rparr>)) =
      spawned (deploy_version (s\<lparr>sys_argv := b\<rparr>))"
    using c by (simp add: deploy_version_def deploy_version_args_def action_defs Let_def)
  have out: "stdout (deploy_version (s\<lparr>sys_argv := a\<rparr>)) =
      stdout (deploy_version (s\<lparr>sys_argv := b\<rparr>))"
    using v m by (simp add: deploy_version_def deploy_version_args_def action_defs Let_def)
  from v m c sp out show ?thesis
    by (intro conjI)
qed

theorem deploy_version_ignores_further_args_witness:
  "take 2 (drop 1 [''deploy-version'', ''1.0.0'', ''Initial release'', ''--force'']) =
     take 2 (drop 1 [''deploy-version'', ''1.0.0'', ''Initial release'']) \<and>
   deploy_version_cmd (drop 1 [''deploy-version'', ''1.0.0'', ''Initial release'', ''--force'']) =
     deploy_version_cmd (drop 1 [''deploy-version'', ''1.0.0'', ''Initial release'']) \<and>
   deploy_version_cmd (drop 1 [''deploy-version'', ''1.0.0'', ''Initial release'', ''--force'']) =
     [''mike'', ''deploy'', ''--push'', ''--update-aliases'', ''1.0.0'', ''latest'',
      ''-m'', ''Initial release''] \<and>
   stdout (deploy_version
       \<lparr>sys_argv = [''deploy-version'', ''1.0.0'', ''Initial release'', ''--force''],
        os_environ = Map.empty, stdout = [], spawned = []\<rparr>) =
     stdout (deploy_version
       \<lparr>sys_argv = [''deploy-version'', ''1.0.0'', ''Initial release''],
        os_environ = Map.empty, stdout = [], spawned = []\<rparr>)"
proof -
  have agree:
    "take 2 (drop 1 [''deploy-version'', ''1.0.0'', ''Initial release'', ''--force'']) =
     take 2 (drop 1 [''deploy-version'', ''1.0.0'', ''Initial release''])"
    by simp
  have shape:
    "deploy_version_cmd (drop 1 [''deploy-version'', ''1.0.0'', ''Initial release'', ''--force'']) =
     [''mike'', ''deploy'', ''--push'', ''--update-aliases'', ''1.0.0'', ''latest'',
      ''-m'', ''Initial release'']"
    by (simp add: deploy_defs Let_def)
  show ?thesis
    using agree shape
      deploy_version_ignores_further_args
        [OF agree, of "\<lparr>sys_argv = [], os_environ = Map.empty, stdout = [], spawned = []\<rparr>"]
    by simp
qed

end
